theory Spec2Isabelle
  imports Main "HOL-Library.Word"
begin

section \<open>HTTP firmware update of the trap monitor (httpota.cpp)\<close>

text \<open>
  The development embeds the class \<open>HttpOta\<close> of
  \<open>src/lora_trap_monitor/src/httpota.cpp\<close>: the authentication check and the three
  handlers registered for \<open>/update\<close>. The handlers talk to three objects of the
  platform: the web server (\<open>server\<close>), the firmware updater (\<open>Update\<close>) and the
  serial console (\<open>Serial\<close>). Every call on one of them is written into a trace, in the
  order of the statements of the source, so that "responds, then restarts" is a
  statement about the order of two entries of the trace.
\<close>

subsection \<open>Data\<close>

type_synonym byte = "8 word"

text \<open>\<open>size_t\<close> on the ESP32 (a 32-bit target) is an unsigned 32-bit integer.\<close>

type_synonym size_t = "32 word"

text \<open>The upload status of the web server's \<open>HTTPUpload\<close> structure.\<close>

datatype HTTPUploadStatus =
  UPLOAD_FILE_START | UPLOAD_FILE_WRITE | UPLOAD_FILE_END | UPLOAD_FILE_ABORTED

text \<open>The fields of \<open>HTTPUpload\<close> that the handler reads.\<close>

record HTTPUpload =
  status :: HTTPUploadStatus
  filename :: string
  totalSize :: size_t
  currentSize :: size_t
  buf :: "byte list"

text \<open>
  The part of a request that the handlers look at: the credentials it carries, if any.
\<close>

record request =
  credentials :: "(string \<times> string) option"

text \<open>The configuration of an \<open>HttpOta\<close> object (the constructor's arguments).\<close>

record HttpOta =
  UPDATE_USER :: string
  UPDATE_PASS :: string

datatype printf_arg = ArgS string | ArgU size_t

text \<open>
  The body of a response. The HTML of the upload form is presentation and is kept
  abstract; the plain-text bodies are the strings of the source.
\<close>

datatype body = Plain string | UploadForm

text \<open>
  One entry per call on a platform object. \<open>UpdateBegin ok\<close> is a call of
  \<open>Update.begin()\<close> that returned \<open>ok\<close>; \<open>UpdateWrite n w\<close> a call of
  \<open>Update.write(buf, n)\<close> that returned \<open>w\<close>; \<open>UpdateEnd f ok\<close> a call of
  \<open>Update.end(f)\<close> that returned \<open>ok\<close>.
\<close>

datatype effect =
    SerialPrintln string
  | SerialPrintf string "printf_arg list"
  | UpdateBegin bool
  | UpdateWrite size_t size_t
  | UpdateEnd bool bool
  | UpdatePrintError
  | RequestAuthentication
  | Send nat string body
  | Delay nat
  | Restart
  | Yield

text \<open>
  The updater \<open>Update\<close> belongs to the platform, not to this repository. It is a
  parameter of the model: a state of some type \<open>'s\<close> and the four operations that the
  handlers call on it, each returning its result and the next state.
\<close>

record 's UpdateClass =
  Update_begin :: "'s \<Rightarrow> bool \<times> 's"
  Update_write :: "byte list \<Rightarrow> size_t \<Rightarrow> 's \<Rightarrow> size_t \<times> 's"
  Update_end :: "bool \<Rightarrow> 's \<Rightarrow> bool \<times> 's"
  Update_hasError :: "'s \<Rightarrow> bool"

text \<open>
  What the handlers change: the function-local \<open>static size_t written\<close> of
  \<open>handleUpdateUpload\<close>, the state of the global \<open>Update\<close> object, and the trace.
\<close>

record 's device =
  written :: size_t
  updater :: 's
  trace :: "effect list"

definition emit :: "effect \<Rightarrow> 's device \<Rightarrow> 's device" where
  "emit e d = d\<lparr>trace := trace d @ [e]\<rparr>"

subsection \<open>Authentication\<close>

text \<open>
  Modelled from the spec: \<open>WebServer::authenticate\<close> is platform code that is not in
  the repository. The spec describes it as HTTP Basic authentication against a fixed
  username/password pair, a simple string equality: the request passes when it carries
  credentials and both strings are the configured ones.
\<close>

definition authenticate :: "request \<Rightarrow> string \<Rightarrow> string \<Rightarrow> bool" where
  "authenticate req user pass = (credentials req = Some (user, pass))"

text \<open>\<open>HttpOta::checkAuth\<close> (httpota.cpp, lines 43-49).\<close>

definition checkAuth :: "HttpOta \<Rightarrow> request \<Rightarrow> 's device \<Rightarrow> bool \<times> 's device" where
  "checkAuth ota req d =
     (if \<not> authenticate req (UPDATE_USER ota) (UPDATE_PASS ota)
      then (False, emit RequestAuthentication d)
      else (True, d))"

subsection \<open>The handlers\<close>

text \<open>\<open>HttpOta::handleUpdatePage\<close> (lines 51-63).\<close>

definition handleUpdatePage :: "HttpOta \<Rightarrow> request \<Rightarrow> 's device \<Rightarrow> 's device" where
  "handleUpdatePage ota req d0 =
     (case checkAuth ota req d0 of
        (False, d) \<Rightarrow> d
      | (True, d) \<Rightarrow> emit (Send 200 ''text/html'' UploadForm) d)"

text \<open>
  \<open>HttpOta::handleUpdateUpload\<close> (lines 65-97): one call per chunk of the upload.
  The branches are those of the source, in its order.
\<close>

definition handleUpdateUpload ::
  "'s UpdateClass \<Rightarrow> HttpOta \<Rightarrow> request \<Rightarrow> HTTPUpload \<Rightarrow> 's device \<Rightarrow> 's device" where
  "handleUpdateUpload U ota req upload d0 =
     (case checkAuth ota req d0 of
        (False, d) \<Rightarrow> d
      | (True, d) \<Rightarrow>
          let d1 = emit (SerialPrintln ''[OTA] Uploading firmware...'') d;
              d2 = emit (SerialPrintf (''[OTA] Upload: %s, size=%u'' @ [CHR 0x0A])
                           [ArgS (filename upload), ArgU (totalSize upload)]) d1;
              d3 =
                (if status upload = UPLOAD_FILE_START then
                   let a = d2\<lparr>written := 0\<rparr>;
                       (ok, s) = Update_begin U (updater a);
                       b = emit (UpdateBegin ok) (a\<lparr>updater := s\<rparr>);
                       c = (if \<not> ok then emit UpdatePrintError b else b)
                   in emit (SerialPrintf (''[OTA] Start: %s, size=%u'' @ [CHR 0x0A])
                              [ArgS (filename upload), ArgU (totalSize upload)]) c
                 else if status upload = UPLOAD_FILE_WRITE then
                   let (w, s) = Update_write U (buf upload) (currentSize upload) (updater d2);
                       a = emit (UpdateWrite (currentSize upload) w) (d2\<lparr>updater := s\<rparr>);
                       b = a\<lparr>written := written a + w\<rparr>
                   in (if w \<noteq> currentSize upload
                       then emit (SerialPrintln ''[OTA] Write mismatch'') b else b)
                 else if status upload = UPLOAD_FILE_END then
                   let (ok, s) = Update_end U True (updater d2);
                       a = emit (UpdateEnd True ok) (d2\<lparr>updater := s\<rparr>)
                   in (if ok
                       then emit (SerialPrintf
                              (''[OTA] Success: %u bytes written, rebooting...'' @ [CHR 0x0A])
                              [ArgU (written a)]) a
                       else emit UpdatePrintError a)
                 else if status upload = UPLOAD_FILE_ABORTED then
                   let (ok, s) = Update_end U False (updater d2);
                       a = emit (UpdateEnd False ok) (d2\<lparr>updater := s\<rparr>)
                   in emit (SerialPrintln ''[OTA] Aborted'') a
                 else d2)
          in emit Yield d3)"

text \<open>\<open>HttpOta::handleUpdateDone\<close> (lines 99-108).\<close>

definition handleUpdateDone ::
  "'s UpdateClass \<Rightarrow> HttpOta \<Rightarrow> request \<Rightarrow> 's device \<Rightarrow> 's device" where
  "handleUpdateDone U ota req d0 =
     (case checkAuth ota req d0 of
        (False, d) \<Rightarrow> d
      | (True, d) \<Rightarrow>
          if Update_hasError U (updater d)
          then emit (Send 200 ''text/plain'' (Plain ''Update FAILED'')) d
          else
            let a = emit (Send 200 ''text/plain'' (Plain ''Update OK. Rebooting...'')) d;
                b = emit (Delay 500) a
            in emit Restart b)"

text \<open>
  Modelled from the spec: the dispatch of the web server is platform code that is not in
  the repository. \<open>HttpOta::begin\<close> (lines 16-20) registers two callbacks for
  \<open>POST /update\<close>: \<open>handleUpdateUpload\<close>, which "receives data chunks", and
  \<open>handleUpdateDone\<close>, "called when upload finished". By sections 2 and 5 of the
  spec the router calls the first once per chunk, in the order of arrival, each call
  running to completion, and the second on completion. \<open>uploadChunks\<close> is the
  sequence of upload callbacks of one request and \<open>postUpdate\<close> the whole request.
\<close>

fun uploadChunks ::
  "'s UpdateClass \<Rightarrow> HttpOta \<Rightarrow> request \<Rightarrow> HTTPUpload list \<Rightarrow> 's device \<Rightarrow> 's device" where
  "uploadChunks U ota req [] d = d"
| "uploadChunks U ota req (u # us) d = uploadChunks U ota req us (handleUpdateUpload U ota req u d)"

definition postUpdate ::
  "'s UpdateClass \<Rightarrow> HttpOta \<Rightarrow> request \<Rightarrow> HTTPUpload list \<Rightarrow> 's device \<Rightarrow> 's device" where
  "postUpdate U ota req us d = handleUpdateDone U ota req (uploadChunks U ota req us d)"

subsection \<open>What the trace says about a session\<close>

text \<open>
  The calls of \<open>Update.write\<close> in a trace: the length offered and the count returned.
\<close>

fun writes_of :: "effect list \<Rightarrow> (size_t \<times> size_t) list" where
  "writes_of [] = []"
| "writes_of (UpdateWrite n w # es) = (n, w) # writes_of es"
| "writes_of (e # es) = writes_of es"

text \<open>
  What a call of \<open>uploadChunks\<close> adds to the trace (the trace only grows, see
  \<open>trace_uploadChunks\<close> below).
\<close>

definition session_trace ::
  "'s UpdateClass \<Rightarrow> HttpOta \<Rightarrow> request \<Rightarrow> HTTPUpload list \<Rightarrow> 's device \<Rightarrow> effect list" where
  "session_trace U ota req us d = drop (length (trace d)) (trace (uploadChunks U ota req us d))"

text \<open>
  The source keeps no session status. The status of the spec (section 4.1: Idle,
  InProgress, Completed, Failed, Aborted) is read off the trace, following the spec's
  words: \<open>onStart\<close> is the call of \<open>Update.begin\<close>, \<open>onEnd\<close> the call of
  \<open>Update.end(true)\<close> and \<open>onAbort\<close> the call of \<open>Update.end()\<close>. A start leads
  to InProgress, or to Failed when the open fails; from InProgress an end leads to
  Completed or Failed and an abort to Aborted; Idle and the terminal states ignore
  end and abort.
\<close>

datatype session_status = Idle | InProgress | Completed | Failed | Aborted

fun spec_step :: "session_status \<Rightarrow> effect \<Rightarrow> session_status" where
  "spec_step st (UpdateBegin ok) = (if ok then InProgress else Failed)"
| "spec_step st (UpdateEnd True ok) =
     (if st = InProgress then (if ok then Completed else Failed) else st)"
| "spec_step st (UpdateEnd False ok) = (if st = InProgress then Aborted else st)"
| "spec_step st e = st"

definition spec_status :: "effect list \<Rightarrow> session_status" where
  "spec_status es = foldl spec_step Idle es"

subsection \<open>The Flash Staging Sink\<close>

text \<open>
  Modelled from the spec: the platform's \<open>Update\<close> object (\<open>Update.h\<close>) is not in
  the repository. Section 4.2 of the spec gives its contract, and section 9 asks for an
  in-memory stand-in of it. \<open>open\<close> reserves a region sized to the free area of
  persistent storage and fails when there is none; \<open>write\<close> appends to the region and
  returns the number of bytes accepted, which is less than requested when the region
  runs out; \<open>seal\<close> validates the staged image (validation is internal to the sink,
  hence the parameter \<open>valid\<close>) and on success makes it the image of the next
  restart, on failure records the error and changes nothing at boot; \<open>discard\<close>
  releases the region without any change at boot. \<open>Update.begin()\<close> is \<open>open\<close>,
  \<open>Update.write\<close> is \<open>write\<close>, \<open>Update.end(true)\<close> is \<open>seal\<close>,
  \<open>Update.end()\<close> is \<open>discard\<close>, and \<open>Update.hasError()\<close> reads the error state.
\<close>

record flash =
  free_space :: nat
  region :: "byte list option"
  error :: bool
  bootable :: "byte list option"

definition flash_open :: "flash \<Rightarrow> bool \<times> flash" where
  "flash_open s =
     (if free_space s = 0 then (False, s\<lparr>error := True\<rparr>)
      else (True, s\<lparr>region := Some [], error := False\<rparr>))"

definition flash_write :: "byte list \<Rightarrow> size_t \<Rightarrow> flash \<Rightarrow> size_t \<times> flash" where
  "flash_write bytes n s =
     (case region s of
        None \<Rightarrow> (0, s)
      | Some img \<Rightarrow>
          let k = min (min (unat n) (length bytes)) (free_space s - length img)
          in (of_nat k, s\<lparr>region := Some (img @ take k bytes)\<rparr>))"

definition flash_seal :: "(byte list \<Rightarrow> bool) \<Rightarrow> flash \<Rightarrow> bool \<times> flash" where
  "flash_seal valid s =
     (case region s of
        None \<Rightarrow> (False, s\<lparr>error := True\<rparr>)
      | Some img \<Rightarrow>
          if error s \<or> \<not> valid img then (False, s\<lparr>region := None, error := True\<rparr>)
          else (True, s\<lparr>region := None, bootable := Some img\<rparr>))"

definition flash_discard :: "flash \<Rightarrow> bool \<times> flash" where
  "flash_discard s = (False, s\<lparr>region := None\<rparr>)"

definition flash_sink :: "(byte list \<Rightarrow> bool) \<Rightarrow> flash UpdateClass" where
  "flash_sink valid =
     \<lparr>Update_begin = flash_open,
      Update_write = flash_write,
      Update_end = (\<lambda>evenIfRemaining s. if evenIfRemaining then flash_seal valid s else flash_discard s),
      Update_hasError = error\<rparr>"

text \<open>
  The clauses of the sink's contract that the results below rely on, for an updater
  given as a parameter. \<open>boot\<close> observes what the device runs after the next restart.
\<close>

definition write_bounded :: "'s UpdateClass \<Rightarrow> bool" where
  "write_bounded U = (\<forall>bytes n s. fst (Update_write U bytes n s) \<le> n)"

definition error_sticky :: "'s UpdateClass \<Rightarrow> bool" where
  "error_sticky U =
     ((\<forall>s. \<not> fst (Update_begin U s) \<longrightarrow> Update_hasError U (snd (Update_begin U s))) \<and>
      (\<forall>bytes n s. Update_hasError U s \<longrightarrow> Update_hasError U (snd (Update_write U bytes n s))) \<and>
      (\<forall>s. Update_hasError U s \<longrightarrow>
            \<not> fst (Update_end U True s) \<and> Update_hasError U (snd (Update_end U True s))))"


subsection \<open>A concrete device for the examples\<close>

definition admin :: HttpOta where
  "admin = \<lparr>UPDATE_USER = ''admin'', UPDATE_PASS = ''changeme''\<rparr>"

definition good_request :: request where
  "good_request = \<lparr>credentials = Some (''admin'', ''changeme'')\<rparr>"

definition bad_request :: request where
  "bad_request = \<lparr>credentials = Some (''admin'', ''guess'')\<rparr>"

definition anonymous_request :: request where
  "anonymous_request = \<lparr>credentials = None\<rparr>"

definition nonempty :: "byte list \<Rightarrow> bool" where
  "nonempty img = (img \<noteq> [])"

definition fresh_flash :: "nat \<Rightarrow> flash" where
  "fresh_flash n = \<lparr>free_space = n, region = None, error = False, bootable = None\<rparr>"

definition fresh_device :: "nat \<Rightarrow> flash device" where
  "fresh_device n = \<lparr>written = 0, updater = fresh_flash n, trace = []\<rparr>"

definition chunk :: "HTTPUploadStatus \<Rightarrow> size_t \<Rightarrow> size_t \<Rightarrow> byte list \<Rightarrow> HTTPUpload" where
  "chunk st tot n bytes =
     \<lparr>status = st, filename = ''fw.bin'', totalSize = tot, currentSize = n, buf = bytes\<rparr>"

text \<open>
  The two lines that \<open>handleUpdateUpload\<close> prints for every chunk it accepts, before
  it looks at the status (lines 68 and 73).
\<close>

definition upload_log :: "HTTPUpload \<Rightarrow> effect list" where
  "upload_log u =
     [SerialPrintln ''[OTA] Uploading firmware...'',
      SerialPrintf (''[OTA] Upload: %s, size=%u'' @ [CHR 0x0A]) [ArgS (filename u), ArgU (totalSize u)]]"

text \<open>
  The upload of the spec's scenarios: a start announcing \<open>fw.bin\<close> with 1024 bytes,
  two chunks of 512 bytes, and the end.
\<close>

definition fw_upload :: "HTTPUpload list" where
  "fw_upload =
     [chunk UPLOAD_FILE_START 1024 0 [],
      chunk UPLOAD_FILE_WRITE 1024 512 (replicate 512 233),
      chunk UPLOAD_FILE_WRITE 1024 512 (replicate 512 7),
      chunk UPLOAD_FILE_END 1024 0 []]"

section \<open>Properties of the handlers\<close>

subsection \<open>What each handler does, branch by branch\<close>

lemma checkAuth_ok:
  "authenticate req (UPDATE_USER ota) (UPDATE_PASS ota) \<Longrightarrow> checkAuth ota req d = (True, d)"
  by (simp add: checkAuth_def)

lemma checkAuth_fail:
  "\<not> authenticate req (UPDATE_USER ota) (UPDATE_PASS ota) \<Longrightarrow>
   checkAuth ota req d = (False, d\<lparr>trace := trace d @ [RequestAuthentication]\<rparr>)"
  by (simp add: checkAuth_def emit_def)

lemma upload_rejected:
  "\<not> authenticate req (UPDATE_USER ota) (UPDATE_PASS ota) \<Longrightarrow>
   handleUpdateUpload U ota req u d = d\<lparr>trace := trace d @ [RequestAuthentication]\<rparr>"
  by (simp add: handleUpdateUpload_def checkAuth_fail)

lemma upload_start:
  assumes "authenticate req (UPDATE_USER ota) (UPDATE_PASS ota)"
    and "status u = UPLOAD_FILE_START"
  shows "handleUpdateUpload U ota req u d =
     \<lparr>written = 0, updater = snd (Update_begin U (updater d)),
      trace = trace d @ upload_log u @ [UpdateBegin (fst (Update_begin U (updater d)))] @
        (if fst (Update_begin U (updater d)) then [] else [UpdatePrintError]) @
        [SerialPrintf (''[OTA] Start: %s, size=%u'' @ [CHR 0x0A]) [ArgS (filename u), ArgU (totalSize u)],
         Yield]\<rparr>"
  using assms
  by (simp add: handleUpdateUpload_def checkAuth_ok emit_def upload_log_def Let_def split: prod.split)

lemma upload_write:
  assumes "authenticate req (UPDATE_USER ota) (UPDATE_PASS ota)"
    and "status u = UPLOAD_FILE_WRITE"
  shows "handleUpdateUpload U ota req u d =
     \<lparr>written = written d + fst (Update_write U (buf u) (currentSize u) (updater d)),
      updater = snd (Update_write U (buf u) (currentSize u) (updater d)),
      trace = trace d @ upload_log u @
        [UpdateWrite (currentSize u) (fst (Update_write U (buf u) (currentSize u) (updater d)))] @
        (if fst (Update_write U (buf u) (currentSize u) (updater d)) \<noteq> currentSize u
         then [SerialPrintln ''[OTA] Write mismatch''] else []) @ [Yield]\<rparr>"
  using assms
  by (simp add: handleUpdateUpload_def checkAuth_ok emit_def upload_log_def Let_def split: prod.split)

lemma upload_end:
  assumes "authenticate req (UPDATE_USER ota) (UPDATE_PASS ota)"
    and "status u = UPLOAD_FILE_END"
  shows "handleUpdateUpload U ota req u d =
     \<lparr>written = written d,
      updater = snd (Update_end U True (updater d)),
      trace = trace d @ upload_log u @
        [UpdateEnd True (fst (Update_end U True (updater d))),
         if fst (Update_end U True (updater d))
         then SerialPrintf (''[OTA] Success: %u bytes written, rebooting...'' @ [CHR 0x0A]) [ArgU (written d)]
         else UpdatePrintError,
         Yield]\<rparr>"
  using assms
  by (simp add: handleUpdateUpload_def checkAuth_ok emit_def upload_log_def Let_def split: prod.split)

lemma upload_aborted:
  assumes "authenticate req (UPDATE_USER ota) (UPDATE_PASS ota)"
    and "status u = UPLOAD_FILE_ABORTED"
  shows "handleUpdateUpload U ota req u d =
     \<lparr>written = written d,
      updater = snd (Update_end U False (updater d)),
      trace = trace d @ upload_log u @
        [UpdateEnd False (fst (Update_end U False (updater d))),
         SerialPrintln ''[OTA] Aborted'', Yield]\<rparr>"
  using assms
  by (simp add: handleUpdateUpload_def checkAuth_ok emit_def upload_log_def Let_def split: prod.split)

lemma done_accepted:
  assumes "authenticate req (UPDATE_USER ota) (UPDATE_PASS ota)"
  shows "handleUpdateDone U ota req d =
     d\<lparr>trace := trace d @
        (if Update_hasError U (updater d)
         then [Send 200 ''text/plain'' (Plain ''Update FAILED'')]
         else [Send 200 ''text/plain'' (Plain ''Update OK. Rebooting...''), Delay 500, Restart])\<rparr>"
  using assms
  by (simp add: handleUpdateDone_def checkAuth_ok emit_def Let_def)

lemma done_rejected:
  "\<not> authenticate req (UPDATE_USER ota) (UPDATE_PASS ota) \<Longrightarrow>
   handleUpdateDone U ota req d = d\<lparr>trace := trace d @ [RequestAuthentication]\<rparr>"
  by (simp add: handleUpdateDone_def checkAuth_fail)

subsection \<open>The trace only grows\<close>

lemma trace_handleUpdateUpload:
  "\<exists>t. trace (handleUpdateUpload U ota req u d) = trace d @ t"
proof (cases "authenticate req (UPDATE_USER ota) (UPDATE_PASS ota)")
  case False
  then show ?thesis by (simp add: upload_rejected)
next
  case True
  then show ?thesis
    by (cases "status u") (simp_all add: upload_start upload_write upload_end upload_aborted)
qed

lemma trace_uploadChunks_ex:
  "\<exists>t. trace (uploadChunks U ota req us d) = trace d @ t"
proof (induction us arbitrary: d)
  case Nil
  then show ?case by simp
next
  case (Cons u us)
  obtain t1 where t1: "trace (handleUpdateUpload U ota req u d) = trace d @ t1"
    using trace_handleUpdateUpload by blast
  obtain t2 where "trace (uploadChunks U ota req us (handleUpdateUpload U ota req u d))
      = trace (handleUpdateUpload U ota req u d) @ t2"
    using Cons.IH by blast
  with t1 show ?case by simp
qed

lemma trace_uploadChunks:
  "trace (uploadChunks U ota req us d) = trace d @ session_trace U ota req us d"
proof -
  obtain t where "trace (uploadChunks U ota req us d) = trace d @ t"
    using trace_uploadChunks_ex by blast
  then show ?thesis by (simp add: session_trace_def)
qed

lemma session_trace_Nil: "session_trace U ota req [] d = []"
  by (simp add: session_trace_def)

lemma session_trace_Cons:
  "session_trace U ota req (u # us) d =
     session_trace U ota req [u] d @ session_trace U ota req us (handleUpdateUpload U ota req u d)"
proof -
  let ?h = "handleUpdateUpload U ota req u d"
  have a: "trace ?h = trace d @ session_trace U ota req [u] d"
    using trace_uploadChunks [of U ota req "[u]" d] by simp
  have "trace (uploadChunks U ota req (u # us) d) = trace ?h @ session_trace U ota req us ?h"
    using trace_uploadChunks [of U ota req us ?h] by simp
  then have "trace (uploadChunks U ota req (u # us) d)
      = trace d @ session_trace U ota req [u] d @ session_trace U ota req us ?h"
    using a by simp
  then show ?thesis
    using trace_uploadChunks [of U ota req "u # us" d] by simp
qed

lemma uploadChunks_append:
  "uploadChunks U ota req (us @ vs) d = uploadChunks U ota req vs (uploadChunks U ota req us d)"
  by (induction us arbitrary: d) simp_all

lemma session_trace_append:
  "session_trace U ota req (us @ vs) d =
     session_trace U ota req us d @ session_trace U ota req vs (uploadChunks U ota req us d)"
proof (induction us arbitrary: d)
  case Nil
  then show ?case by (simp add: session_trace_Nil)
next
  case (Cons u us)
  have "session_trace U ota req ((u # us) @ vs) d =
      session_trace U ota req [u] d @ session_trace U ota req (us @ vs) (handleUpdateUpload U ota req u d)"
    using session_trace_Cons [of U ota req u "us @ vs" d] by simp
  also have "\<dots> = session_trace U ota req [u] d @
      (session_trace U ota req us (handleUpdateUpload U ota req u d) @
       session_trace U ota req vs (uploadChunks U ota req us (handleUpdateUpload U ota req u d)))"
    using Cons.IH by simp
  finally show ?case
    using session_trace_Cons [of U ota req u us d] by simp
qed

lemma session_trace_single:
  "session_trace U ota req [u] d = drop (length (trace d)) (trace (handleUpdateUpload U ota req u d))"
  by (simp add: session_trace_def)

subsection \<open>Reading the trace\<close>

lemma writes_of_append: "writes_of (xs @ ys) = writes_of xs @ writes_of ys"
  by (induction xs rule: writes_of.induct) simp_all

lemma writes_of_upload_log: "writes_of (upload_log u) = []"
  by (simp add: upload_log_def)

lemma spec_status_append: "spec_status (xs @ ys) = foldl spec_step (spec_status xs) ys"
  by (simp add: spec_status_def)

lemma spec_step_upload_log: "foldl spec_step st (upload_log u) = st"
  by (simp add: upload_log_def)

lemma uploadChunks_rejected:
  assumes "\<not> authenticate req (UPDATE_USER ota) (UPDATE_PASS ota)"
  shows "uploadChunks U ota req us d = d\<lparr>trace := trace d @ replicate (length us) RequestAuthentication\<rparr>"
  using assms
proof (induction us arbitrary: d)
  case Nil
  then show ?case by simp
next
  case (Cons u us)
  then show ?case by (simp add: upload_rejected replicate_append_same)
qed

subsection \<open>What each kind of chunk adds to the trace\<close>

lemma session_trace_start:
  assumes "authenticate req (UPDATE_USER ota) (UPDATE_PASS ota)" "status u = UPLOAD_FILE_START"
  shows "session_trace U ota req [u] d =
     upload_log u @ [UpdateBegin (fst (Update_begin U (updater d)))] @
        (if fst (Update_begin U (updater d)) then [] else [UpdatePrintError]) @
        [SerialPrintf (''[OTA] Start: %s, size=%u'' @ [CHR 0x0A]) [ArgS (filename u), ArgU (totalSize u)],
         Yield]"
  using assms by (simp add: session_trace_single upload_start)

lemma session_trace_write:
  assumes "authenticate req (UPDATE_USER ota) (UPDATE_PASS ota)" "status u = UPLOAD_FILE_WRITE"
  shows "session_trace U ota req [u] d =
     upload_log u @
        [UpdateWrite (currentSize u) (fst (Update_write U (buf u) (currentSize u) (updater d)))] @
        (if fst (Update_write U (buf u) (currentSize u) (updater d)) \<noteq> currentSize u
         then [SerialPrintln ''[OTA] Write mismatch''] else []) @ [Yield]"
  using assms by (simp add: session_trace_single upload_write)

lemma session_trace_end:
  assumes "authenticate req (UPDATE_USER ota) (UPDATE_PASS ota)" "status u = UPLOAD_FILE_END"
  shows "session_trace U ota req [u] d =
     upload_log u @
        [UpdateEnd True (fst (Update_end U True (updater d))),
         if fst (Update_end U True (updater d))
         then SerialPrintf (''[OTA] Success: %u bytes written, rebooting...'' @ [CHR 0x0A]) [ArgU (written d)]
         else UpdatePrintError,
         Yield]"
  using assms by (simp add: session_trace_single upload_end)

lemma session_trace_aborted:
  assumes "authenticate req (UPDATE_USER ota) (UPDATE_PASS ota)" "status u = UPLOAD_FILE_ABORTED"
  shows "session_trace U ota req [u] d =
     upload_log u @
        [UpdateEnd False (fst (Update_end U False (updater d))),
         SerialPrintln ''[OTA] Aborted'', Yield]"
  using assms by (simp add: session_trace_single upload_aborted)

subsection \<open>The counter over a run of data chunks\<close>

lemma writes_session:
  assumes "authenticate req (UPDATE_USER ota) (UPDATE_PASS ota)"
    and "\<forall>u \<in> set ws. status u = UPLOAD_FILE_WRITE"
  shows "written (uploadChunks U ota req ws d) =
           written d + sum_list (map snd (writes_of (session_trace U ota req ws d))) \<and>
         map fst (writes_of (session_trace U ota req ws d)) = map currentSize ws"
  using assms(2)
proof (induction ws arbitrary: d)
  case Nil
  then show ?case by (simp add: session_trace_Nil)
next
  case (Cons u ws)
  let ?h = "handleUpdateUpload U ota req u d"
  have su: "status u = UPLOAD_FILE_WRITE" using Cons.prems by simp
  have ih: "written (uploadChunks U ota req ws ?h) =
           written ?h + sum_list (map snd (writes_of (session_trace U ota req ws ?h))) \<and>
         map fst (writes_of (session_trace U ota req ws ?h)) = map currentSize ws"
    using Cons.IH Cons.prems by simp
  have w1: "writes_of (session_trace U ota req [u] d) =
      [(currentSize u, fst (Update_write U (buf u) (currentSize u) (updater d)))]"
    by (simp add: session_trace_write [OF assms(1) su] writes_of_append writes_of_upload_log)
  have h: "written ?h = written d + fst (Update_write U (buf u) (currentSize u) (updater d))"
    by (simp add: upload_write [OF assms(1) su])
  show ?case
    using ih w1 h by (simp add: session_trace_Cons [of U ota req u ws d] writes_of_append)
qed

lemma unat_sum_list_le: "unat (sum_list (xs :: size_t list)) \<le> sum_list (map unat xs)"
proof (induction xs)
  case Nil
  then show ?case by simp
next
  case (Cons x xs)
  have "unat (x + sum_list xs) \<le> unat x + unat (sum_list xs)"
    by (simp add: unat_word_ariths)
  with Cons show ?case by simp
qed

lemma unat_sum_list_eq:
  "sum_list (map unat (xs :: size_t list)) < 2 ^ 32 \<Longrightarrow> unat (sum_list xs) = sum_list (map unat xs)"
proof (induction xs)
  case Nil
  then show ?case by simp
next
  case (Cons x xs)
  then have a: "unat (sum_list xs) = sum_list (map unat xs)" by simp
  have "unat (x + sum_list xs) = (unat x + unat (sum_list xs)) mod 2 ^ 32"
    by (simp add: unat_word_ariths)
  with a Cons.prems show ?case by simp
qed

lemma sum_list_bounded:
  "\<forall>(n, w) \<in> set ps. w \<le> n \<Longrightarrow>
   sum_list (map unat (map snd (ps :: (size_t \<times> size_t) list))) \<le> sum_list (map unat (map fst ps))"
proof (induction ps)
  case Nil
  then show ?case by simp
next
  case (Cons p ps)
  obtain n w where p: "p = (n, w)" by (cases p)
  with Cons.prems have "unat w \<le> unat n" by (simp add: word_le_nat_alt)
  moreover have "sum_list (map unat (map snd ps)) \<le> sum_list (map unat (map fst ps))"
    using Cons by simp
  ultimately show ?case using p by simp
qed

lemma writes_bounded_step:
  assumes "write_bounded U"
  shows "\<forall>(n, w) \<in> set (writes_of (session_trace U ota req [u] d)). w \<le> n"
proof (cases "authenticate req (UPDATE_USER ota) (UPDATE_PASS ota)")
  case False
  then show ?thesis by (simp add: session_trace_single upload_rejected)
next
  case True
  show ?thesis
  proof (cases "status u")
    case UPLOAD_FILE_WRITE
    then show ?thesis
      using assms
      by (simp add: session_trace_write [OF True] writes_of_append writes_of_upload_log
          write_bounded_def)
  qed (simp_all add: session_trace_start [OF True] session_trace_end [OF True]
      session_trace_aborted [OF True] writes_of_append writes_of_upload_log)
qed

lemma writes_bounded_session:
  assumes "write_bounded U"
  shows "\<forall>(n, w) \<in> set (writes_of (session_trace U ota req us d)). w \<le> n"
proof (induction us arbitrary: d)
  case Nil
  then show ?case by (simp add: session_trace_Nil)
next
  case (Cons u us)
  show ?case
    using writes_bounded_step [OF assms, of ota req u d]
      Cons.IH [of "handleUpdateUpload U ota req u d"]
    by (auto simp add: session_trace_Cons [of U ota req u us d] writes_of_append)
qed

subsection \<open>What the upload handler never does, and what survives it\<close>

lemma upload_no_restart_step:
  "Restart \<notin> set (session_trace U ota req [u] d) \<and>
   (\<forall>c t b. Send c t b \<notin> set (session_trace U ota req [u] d))"
proof (cases "authenticate req (UPDATE_USER ota) (UPDATE_PASS ota)")
  case False
  then show ?thesis by (simp add: session_trace_single upload_rejected)
next
  case True
  then show ?thesis
    by (cases "status u")
      (simp_all add: session_trace_start session_trace_write session_trace_end
        session_trace_aborted upload_log_def)
qed

lemma upload_no_restart:
  "Restart \<notin> set (session_trace U ota req us d) \<and>
   (\<forall>c t b. Send c t b \<notin> set (session_trace U ota req us d))"
proof (induction us arbitrary: d)
  case Nil
  then show ?case by (simp add: session_trace_Nil)
next
  case (Cons u us)
  show ?case
    using upload_no_restart_step [of U ota req u d] Cons.IH [of "handleUpdateUpload U ota req u d"]
    by (simp add: session_trace_Cons [of U ota req u us d])
qed

lemma error_survives_writes:
  assumes "authenticate req (UPDATE_USER ota) (UPDATE_PASS ota)"
    and "error_sticky U"
    and "\<forall>u \<in> set ws. status u = UPLOAD_FILE_WRITE"
    and "Update_hasError U (updater d)"
  shows "Update_hasError U (updater (uploadChunks U ota req ws d))"
  using assms(3,4)
proof (induction ws arbitrary: d)
  case Nil
  then show ?case by simp
next
  case (Cons u ws)
  have "Update_hasError U (updater (handleUpdateUpload U ota req u d))"
    using assms(1,2) Cons.prems by (simp add: upload_write error_sticky_def)
  with Cons show ?case by simp
qed


subsection \<open>The flash sink and the example device\<close>

lemma auth_good: "authenticate good_request (UPDATE_USER admin) (UPDATE_PASS admin)"
  by (simp add: authenticate_def good_request_def admin_def)

lemmas flash_eval =
  chunk_def fresh_device_def fresh_flash_def flash_sink_def flash_open_def flash_write_def
  flash_seal_def flash_discard_def nonempty_def

lemma fw_upload_split:
  "fw_upload = chunk UPLOAD_FILE_START 1024 0 [] #
     [chunk UPLOAD_FILE_WRITE 1024 512 (replicate 512 233),
      chunk UPLOAD_FILE_WRITE 1024 512 (replicate 512 7)] @
     [chunk UPLOAD_FILE_END 1024 0 []]"
  by (simp add: fw_upload_def)

lemmas upload_eval = upload_start upload_write upload_end upload_aborted auth_good

lemma flash_error_sticky: "error_sticky (flash_sink valid)"
  by (simp add: error_sticky_def flash_sink_def flash_open_def flash_write_def flash_seal_def
      Let_def split: option.split)


lemma flash_write_bounded: "write_bounded (flash_sink valid)"
proof -
  have "(of_nat (min (min (unat n) k) m) :: size_t) \<le> n" for n :: size_t and k m :: nat
  proof -
    let ?k = "min (min (unat n) k) m"
    have le: "?k \<le> unat n" by simp
    from le have "unat (of_nat ?k :: size_t) = ?k" by (rule le_unat_uoi)
    with le show ?thesis by (simp only: word_le_nat_alt)
  qed
  then show ?thesis
    by (simp add: write_bounded_def flash_sink_def flash_write_def Let_def split: option.split)
qed

section \<open>The claims of the specification\<close>

text \<open>
  Claim C1. For every authenticated \<open>POST /update\<close>, whatever chunks were uploaded:
  when the updater has no error recorded at the time the done handler runs, the handler
  sends the plain-text body \<open>Update OK. Rebooting...\<close>, then waits 500 ms, then
  restarts the device, in this order; when an error is recorded it sends the plain-text
  body \<open>Update FAILED\<close> and nothing else. The handler changes neither the counter
  nor the updater. The upload callbacks that ran before it neither restart the device
  nor send a response, so the whole request adds to the trace what the chunks added,
  then the one response, then (only without a recorded error) the delay and the one
  restart: the response precedes any restart, and a request that ends with an error
  recorded does not restart the device at all. "The session ended in success" is read as
  the claim reads it: no error recorded in the sink.
\<close>

theorem update_done_responds_then_restarts:
  assumes "authenticate req (UPDATE_USER ota) (UPDATE_PASS ota)"
  shows "postUpdate U ota req us d =
     (uploadChunks U ota req us d)
       \<lparr>trace := trace (uploadChunks U ota req us d) @
          (if Update_hasError U (updater (uploadChunks U ota req us d))
           then [Send 200 ''text/plain'' (Plain ''Update FAILED'')]
           else [Send 200 ''text/plain'' (Plain ''Update OK. Rebooting...''), Delay 500, Restart])\<rparr> \<and>
     trace (postUpdate U ota req us d) =
       trace d @ session_trace U ota req us d @
         (if Update_hasError U (updater (uploadChunks U ota req us d))
          then [Send 200 ''text/plain'' (Plain ''Update FAILED'')]
          else [Send 200 ''text/plain'' (Plain ''Update OK. Rebooting...''), Delay 500, Restart]) \<and>
     Restart \<notin> set (session_trace U ota req us d) \<and>
     (\<forall>c t b. Send c t b \<notin> set (session_trace U ota req us d)) \<and>
     (Update_hasError U (updater (uploadChunks U ota req us d)) \<longrightarrow>
        Restart \<notin> set (drop (length (trace d)) (trace (postUpdate U ota req us d))))"
proof -
  let ?d' = "uploadChunks U ota req us d"
  let ?out = "if Update_hasError U (updater ?d')
          then [Send 200 ''text/plain'' (Plain ''Update FAILED'')]
          else [Send 200 ''text/plain'' (Plain ''Update OK. Rebooting...''), Delay 500, Restart]"
  have p: "postUpdate U ota req us d = ?d'\<lparr>trace := trace ?d' @ ?out\<rparr>"
    using assms by (simp add: postUpdate_def done_accepted)
  have t: "trace ?d' = trace d @ session_trace U ota req us d"
    by (rule trace_uploadChunks)
  have w: "trace (postUpdate U ota req us d) = trace d @ session_trace U ota req us d @ ?out"
    by (simp add: p t)
  have n: "Restart \<notin> set (session_trace U ota req us d)"
    and s: "\<forall>c t b. Send c t b \<notin> set (session_trace U ota req us d)"
    using upload_no_restart [of U ota req us d] by simp_all
  have f: "Restart \<notin> set (drop (length (trace d)) (trace (postUpdate U ota req us d)))"
    if "Update_hasError U (updater ?d')"
    using that n by (simp add: w)
  show ?thesis
  proof (intro conjI impI)
    show "postUpdate U ota req us d = ?d'\<lparr>trace := trace ?d' @ ?out\<rparr>" by (rule p)
    show "trace (postUpdate U ota req us d) = trace d @ session_trace U ota req us d @ ?out"
      by (rule w)
    show "Restart \<notin> set (session_trace U ota req us d)" by (rule n)
    show "\<forall>c t b. Send c t b \<notin> set (session_trace U ota req us d)" by (rule s)
    show "Restart \<notin> set (drop (length (trace d)) (trace (postUpdate U ota req us d)))"
      if "Update_hasError U (updater ?d')" by (rule f [OF that])
  qed
qed

theorem update_done_responds_then_restarts_witness:
  "authenticate good_request (UPDATE_USER admin) (UPDATE_PASS admin) \<and>
   postUpdate (flash_sink nonempty) admin good_request fw_upload (fresh_device 4096) =
     (uploadChunks (flash_sink nonempty) admin good_request fw_upload (fresh_device 4096))
       \<lparr>trace := trace (uploadChunks (flash_sink nonempty) admin good_request fw_upload (fresh_device 4096)) @
          [Send 200 ''text/plain'' (Plain ''Update OK. Rebooting...''), Delay 500, Restart]\<rparr> \<and>
   trace (postUpdate (flash_sink nonempty) admin good_request fw_upload (fresh_device 4096)) =
     session_trace (flash_sink nonempty) admin good_request fw_upload (fresh_device 4096) @
       [Send 200 ''text/plain'' (Plain ''Update OK. Rebooting...''), Delay 500, Restart] \<and>
   Restart \<notin> set (session_trace (flash_sink nonempty) admin good_request fw_upload (fresh_device 4096)) \<and>
   postUpdate (flash_sink nonempty) admin good_request fw_upload (fresh_device 0) =
     (uploadChunks (flash_sink nonempty) admin good_request fw_upload (fresh_device 0))
       \<lparr>trace := trace (uploadChunks (flash_sink nonempty) admin good_request fw_upload (fresh_device 0)) @
          [Send 200 ''text/plain'' (Plain ''Update FAILED'')]\<rparr> \<and>
   Update_hasError (flash_sink nonempty)
     (updater (uploadChunks (flash_sink nonempty) admin good_request fw_upload (fresh_device 0))) \<and>
   Restart \<notin> set (trace (postUpdate (flash_sink nonempty) admin good_request fw_upload (fresh_device 0)))"
proof -
  let ?U = "flash_sink nonempty"
  have ok: "\<not> Update_hasError ?U (updater (uploadChunks ?U admin good_request fw_upload (fresh_device 4096)))"
    by (simp add: fw_upload_def upload_eval flash_eval)
  have bad: "Update_hasError ?U (updater (uploadChunks ?U admin good_request fw_upload (fresh_device 0)))"
    by (simp add: fw_upload_def upload_eval flash_eval)
  have t: "trace (fresh_device 4096) = []" "trace (fresh_device 0) = []"
    by (simp_all add: fresh_device_def)
  note a = update_done_responds_then_restarts [OF auth_good, of ?U fw_upload "fresh_device 4096"]
  note b = update_done_responds_then_restarts [OF auth_good, of ?U fw_upload "fresh_device 0"]
  have a1: "postUpdate ?U admin good_request fw_upload (fresh_device 4096) =
     (uploadChunks ?U admin good_request fw_upload (fresh_device 4096))
       \<lparr>trace := trace (uploadChunks ?U admin good_request fw_upload (fresh_device 4096)) @
          [Send 200 ''text/plain'' (Plain ''Update OK. Rebooting...''), Delay 500, Restart]\<rparr>"
    using a ok by simp
  have a2: "trace (postUpdate ?U admin good_request fw_upload (fresh_device 4096)) =
     session_trace ?U admin good_request fw_upload (fresh_device 4096) @
       [Send 200 ''text/plain'' (Plain ''Update OK. Rebooting...''), Delay 500, Restart]"
  proof -
    have "trace (postUpdate ?U admin good_request fw_upload (fresh_device 4096)) =
       trace (fresh_device 4096) @ session_trace ?U admin good_request fw_upload (fresh_device 4096) @
         (if Update_hasError ?U (updater (uploadChunks ?U admin good_request fw_upload (fresh_device 4096)))
          then [Send 200 ''text/plain'' (Plain ''Update FAILED'')]
          else [Send 200 ''text/plain'' (Plain ''Update OK. Rebooting...''), Delay 500, Restart])"
      using a by blast
    then show ?thesis
      by (simp only: ok t if_False append_Nil)
  qed
  have a3: "Restart \<notin> set (session_trace ?U admin good_request fw_upload (fresh_device 4096))"
    using a by blast
  have b1: "postUpdate ?U admin good_request fw_upload (fresh_device 0) =
     (uploadChunks ?U admin good_request fw_upload (fresh_device 0))
       \<lparr>trace := trace (uploadChunks ?U admin good_request fw_upload (fresh_device 0)) @
          [Send 200 ''text/plain'' (Plain ''Update FAILED'')]\<rparr>"
    using b bad by simp
  have "Restart \<notin> set (drop (length (trace (fresh_device 0)))
      (trace (postUpdate ?U admin good_request fw_upload (fresh_device 0))))"
    using b bad by blast
  then have b2: "Restart \<notin> set (trace (postUpdate ?U admin good_request fw_upload (fresh_device 0)))"
    by (simp add: t)
  show ?thesis
    using auth_good a1 a2 a3 b1 bad b2 by blast
qed



text \<open>
  Claim C3. For an authenticated session made of a start, any number of data chunks and
  an end, from any state of the device and for any updater: the calls of
  \<open>Update.write\<close> are exactly one per data chunk, offered the chunk's
  \<open>currentSize\<close>; the counter \<open>written\<close> after the end is the sum of the counts
  these calls returned (a sum of \<open>size_t\<close> values); when each call returned at most
  what it was offered, the counter is at most the number of bytes offered; and when the
  sum of the counts fits into a \<open>size_t\<close>, the counter read as a natural number is
  that sum.
\<close>

theorem written_is_sum_of_write_counts:
  assumes auth: "authenticate req (UPDATE_USER ota) (UPDATE_PASS ota)"
    and start: "status u0 = UPLOAD_FILE_START"
    and data: "\<forall>u \<in> set ws. status u = UPLOAD_FILE_WRITE"
    and fin: "status ue = UPLOAD_FILE_END"
    and calls: "calls = writes_of (session_trace U ota req (u0 # ws @ [ue]) d)"
    and final: "d' = uploadChunks U ota req (u0 # ws @ [ue]) d"
  shows "map fst calls = map currentSize ws \<and>
         written d' = sum_list (map snd calls) \<and>
         ((\<forall>(n, w) \<in> set calls. w \<le> n) \<longrightarrow>
            unat (written d') \<le> sum_list (map unat (map currentSize ws))) \<and>
         (sum_list (map unat (map snd calls)) < 2 ^ 32 \<longrightarrow>
            unat (written d') = sum_list (map unat (map snd calls)))"
proof -
  let ?d1 = "handleUpdateUpload U ota req u0 d"
  let ?d2 = "uploadChunks U ota req ws ?d1"
  have w0: "written ?d1 = 0" by (simp add: upload_start [OF auth start])
  have t0: "writes_of (session_trace U ota req [u0] d) = []"
    by (simp add: session_trace_start [OF auth start] writes_of_append writes_of_upload_log)
  have te: "writes_of (session_trace U ota req [ue] ?d2) = []"
    by (simp add: session_trace_end [OF auth fin] writes_of_append writes_of_upload_log)
  have c: "calls = writes_of (session_trace U ota req ws ?d1)"
    using t0 te
    by (simp add: calls session_trace_Cons [of U ota req u0 "ws @ [ue]" d]
        session_trace_append writes_of_append)
  have d': "written d' = written ?d2"
    by (simp add: final uploadChunks_append upload_end [OF auth fin])
  have m: "written ?d2 = sum_list (map snd calls)" and o: "map fst calls = map currentSize ws"
    using writes_session [OF auth data, of U ?d1] w0 c by simp_all
  have le: "unat (written d') \<le> sum_list (map unat (map currentSize ws))"
    if "\<forall>(n, w) \<in> set calls. w \<le> n"
  proof -
    have "unat (written d') \<le> sum_list (map unat (map snd calls))"
      unfolding d' m by (rule unat_sum_list_le)
    also have "\<dots> \<le> sum_list (map unat (map fst calls))"
      by (rule sum_list_bounded [OF that])
    finally show ?thesis unfolding o .
  qed
  have eq: "unat (written d') = sum_list (map unat (map snd calls))"
    if "sum_list (map unat (map snd calls)) < 2 ^ 32"
    unfolding d' m by (rule unat_sum_list_eq [OF that])
  have wm: "written d' = sum_list (map snd calls)"
    using d' m by (rule trans)
  show ?thesis
  proof (intro conjI impI)
    show "map fst calls = map currentSize ws" by (rule o)
    show "written d' = sum_list (map snd calls)" by (rule wm)
    show "unat (written d') \<le> sum_list (map unat (map currentSize ws))"
      if "\<forall>(n, w) \<in> set calls. w \<le> n" by (rule le [OF that])
    show "unat (written d') = sum_list (map unat (map snd calls))"
      if "sum_list (map unat (map snd calls)) < 2 ^ 32" by (rule eq [OF that])
  qed
qed

theorem written_is_sum_of_write_counts_witness:
  "authenticate good_request (UPDATE_USER admin) (UPDATE_PASS admin) \<and>
   writes_of (session_trace (flash_sink nonempty) admin good_request fw_upload (fresh_device 912))
     = [(512, 512), (512, 400)] \<and>
   written (uploadChunks (flash_sink nonempty) admin good_request fw_upload (fresh_device 912))
     = sum_list [512, 400] \<and>
   unat (written (uploadChunks (flash_sink nonempty) admin good_request fw_upload (fresh_device 912)))
     \<le> 512 + 512 \<and>
   unat (written (uploadChunks (flash_sink nonempty) admin good_request fw_upload (fresh_device 912)))
     = 512 + 400"
proof -
  let ?U = "flash_sink nonempty"
  let ?u0 = "chunk UPLOAD_FILE_START 1024 0 []"
  let ?ws = "[chunk UPLOAD_FILE_WRITE 1024 512 (replicate 512 233),
              chunk UPLOAD_FILE_WRITE 1024 512 (replicate 512 7)]"
  let ?ue = "chunk UPLOAD_FILE_END 1024 0 []"
  have s: "status ?u0 = UPLOAD_FILE_START" and e: "status ?ue = UPLOAD_FILE_END"
    and w: "\<forall>u \<in> set ?ws. status u = UPLOAD_FILE_WRITE"
    by (simp_all add: chunk_def)
  have calls: "writes_of (session_trace ?U admin good_request (?u0 # ?ws @ [?ue]) (fresh_device 912))
      = [(512, 512), (512, 400)]"
    by (simp add: session_trace_def upload_eval flash_eval upload_log_def)
  have b: "\<forall>(n, w) \<in> set [(512 :: size_t, 512 :: size_t), (512, 400)]. w \<le> n"
    by simp
  have f: "sum_list (map unat (map snd [(512 :: size_t, 512 :: size_t), (512, 400)])) < 2 ^ 32"
    by simp
  note r = written_is_sum_of_write_counts [OF auth_good s w e calls [symmetric] refl]
  have r1: "written (uploadChunks ?U admin good_request (?u0 # ?ws @ [?ue]) (fresh_device 912))
      = sum_list (map snd [(512 :: size_t, 512 :: size_t), (512, 400)])"
    using r by blast
  have r2: "unat (written (uploadChunks ?U admin good_request (?u0 # ?ws @ [?ue]) (fresh_device 912)))
      \<le> sum_list (map unat (map currentSize ?ws))"
    using r b by blast
  have r3: "unat (written (uploadChunks ?U admin good_request (?u0 # ?ws @ [?ue]) (fresh_device 912)))
      = sum_list (map unat (map snd [(512 :: size_t, 512 :: size_t), (512, 400)]))"
    using r f by blast
  have c: "map currentSize ?ws = [512, 512]"
    by (simp add: chunk_def)
  show ?thesis
    unfolding fw_upload_split
    using auth_good calls r1 r2 r3 unfolding c by simp
qed

text \<open>
  Claim C4. For every accepted chunk, from any state of the device (whatever happened in
  an earlier session) and for any updater (whether its open succeeds or fails): a start
  chunk sets \<open>written\<close> to 0; a data chunk adds the count returned by
  \<open>Update.write\<close>, which does not decrease the counter as long as the 32-bit
  addition does not wrap around; an end or an abort leaves the counter as it is. So the
  counter is reset at a start and nowhere else.
\<close>

theorem written_reset_and_increments:
  assumes "authenticate req (UPDATE_USER ota) (UPDATE_PASS ota)"
  shows "(status u = UPLOAD_FILE_START \<longrightarrow> written (handleUpdateUpload U ota req u d) = 0) \<and>
         (status u = UPLOAD_FILE_WRITE \<longrightarrow>
            written (handleUpdateUpload U ota req u d) =
              written d + fst (Update_write U (buf u) (currentSize u) (updater d)) \<and>
            (unat (written d) + unat (fst (Update_write U (buf u) (currentSize u) (updater d))) < 2 ^ 32 \<longrightarrow>
               written d \<le> written (handleUpdateUpload U ota req u d) \<and>
               unat (written (handleUpdateUpload U ota req u d)) =
                 unat (written d) + unat (fst (Update_write U (buf u) (currentSize u) (updater d))))) \<and>
         (status u = UPLOAD_FILE_END \<or> status u = UPLOAD_FILE_ABORTED \<longrightarrow>
            written (handleUpdateUpload U ota req u d) = written d)"
proof -
  let ?w = "fst (Update_write U (buf u) (currentSize u) (updater d))"
  have "unat (written d + ?w) = unat (written d) + unat ?w \<and> written d \<le> written d + ?w"
    if "unat (written d) + unat ?w < 2 ^ 32"
  proof -
    have "unat (written d + ?w) = unat (written d) + unat ?w"
      using that by (simp add: unat_word_ariths)
    then show ?thesis by (simp add: word_le_nat_alt)
  qed
  then show ?thesis
    using assms by (auto simp add: upload_start upload_write upload_end upload_aborted)
qed

theorem written_reset_and_increments_witness:
  "authenticate good_request (UPDATE_USER admin) (UPDATE_PASS admin) \<and>
   written (handleUpdateUpload (flash_sink nonempty) admin good_request (chunk UPLOAD_FILE_START 0 0 [])
      \<lparr>written = 77, updater = fresh_flash 0, trace = []\<rparr>) = 0 \<and>
   written (handleUpdateUpload (flash_sink nonempty) admin good_request (chunk UPLOAD_FILE_START 0 0 [])
      \<lparr>written = 77, updater = fresh_flash 64, trace = []\<rparr>) = 0 \<and>
   written (handleUpdateUpload (flash_sink nonempty) admin good_request (chunk UPLOAD_FILE_WRITE 3 3 [233, 1, 2])
      \<lparr>written = 5, updater = \<lparr>free_space = 7, region = Some [0, 0, 0, 0, 0], error = False, bootable = None\<rparr>,
       trace = []\<rparr>) = 7 \<and>
   unat (5 :: size_t) + unat (2 :: size_t) < 2 ^ 32 \<and>
   (5 :: size_t) \<le> written (handleUpdateUpload (flash_sink nonempty) admin good_request
      (chunk UPLOAD_FILE_WRITE 3 3 [233, 1, 2])
      \<lparr>written = 5, updater = \<lparr>free_space = 7, region = Some [0, 0, 0, 0, 0], error = False, bootable = None\<rparr>,
       trace = []\<rparr>) \<and>
   written (handleUpdateUpload (flash_sink nonempty) admin good_request (chunk UPLOAD_FILE_ABORTED 3 0 [])
      \<lparr>written = 5, updater = \<lparr>free_space = 7, region = Some [0, 0, 0, 0, 0], error = False, bootable = None\<rparr>,
       trace = []\<rparr>) = 5"
proof -
  let ?U = "flash_sink nonempty"
  let ?d = "\<lparr>written = 5, updater = \<lparr>free_space = 7, region = Some [0, 0, 0, 0, 0], error = False,
              bootable = None\<rparr>, trace = []\<rparr> :: flash device"
  show ?thesis
    using auth_good
      written_reset_and_increments [OF auth_good, of "chunk UPLOAD_FILE_START 0 0 []" ?U
        "\<lparr>written = 77, updater = fresh_flash 0, trace = []\<rparr>"]
      written_reset_and_increments [OF auth_good, of "chunk UPLOAD_FILE_START 0 0 []" ?U
        "\<lparr>written = 77, updater = fresh_flash 64, trace = []\<rparr>"]
      written_reset_and_increments [OF auth_good, of "chunk UPLOAD_FILE_WRITE 3 3 [233, 1, 2]" ?U ?d]
      written_reset_and_increments [OF auth_good, of "chunk UPLOAD_FILE_ABORTED 3 0 []" ?U ?d]
    by (simp add: flash_eval)
qed

text \<open>
  Claim C5. When an accepted data chunk's \<open>Update.write\<close> returns a count \<open>w\<close>
  below the offered length, the handler adds \<open>w\<close> (not the offered length) to
  \<open>written\<close>, prints \<open>[OTA] Write mismatch\<close>, and does nothing else: the updater
  is left in the state the write returned, with no call of \<open>Update.end\<close>. A following
  data chunk is forwarded to \<open>Update.write\<close> in that state and its count is added as
  well. With 512 bytes counted before and 400 of 512 accepted, the counter is 912.
\<close>

theorem partial_write_logged_not_aborted:
  assumes auth: "authenticate req (UPDATE_USER ota) (UPDATE_PASS ota)"
    and data: "status u = UPLOAD_FILE_WRITE"
    and call: "Update_write U (buf u) (currentSize u) (updater d) = (w, s)"
    and part: "w < currentSize u"
  shows "handleUpdateUpload U ota req u d =
           \<lparr>written = written d + w, updater = s,
            trace = trace d @ upload_log u @
              [UpdateWrite (currentSize u) w, SerialPrintln ''[OTA] Write mismatch'', Yield]\<rparr> \<and>
         (\<forall>v. status v = UPLOAD_FILE_WRITE \<longrightarrow>
            written (uploadChunks U ota req [u, v] d) =
              written d + w + fst (Update_write U (buf v) (currentSize v) s) \<and>
            updater (uploadChunks U ota req [u, v] d) =
              snd (Update_write U (buf v) (currentSize v) s)) \<and>
         (written d = 512 \<and> currentSize u = 512 \<and> w = 400 \<longrightarrow>
            written (handleUpdateUpload U ota req u d) = 912)"
proof -
  have h: "handleUpdateUpload U ota req u d =
           \<lparr>written = written d + w, updater = s,
            trace = trace d @ upload_log u @
              [UpdateWrite (currentSize u) w, SerialPrintln ''[OTA] Write mismatch'', Yield]\<rparr>"
    using call part by (simp add: upload_write [OF auth data])
  show ?thesis
    by (simp add: h upload_write [OF auth])
qed

theorem partial_write_logged_not_aborted_witness:
  "authenticate good_request (UPDATE_USER admin) (UPDATE_PASS admin) \<and>
   status (fw_upload ! 2) = UPLOAD_FILE_WRITE \<and>
   written (uploadChunks (flash_sink nonempty) admin good_request (take 2 fw_upload) (fresh_device 912)) = 512 \<and>
   fst (Update_write (flash_sink nonempty) (buf (fw_upload ! 2)) (currentSize (fw_upload ! 2))
     (updater (uploadChunks (flash_sink nonempty) admin good_request (take 2 fw_upload) (fresh_device 912)))) = 400 \<and>
   (400 :: size_t) < currentSize (fw_upload ! 2) \<and>
   written (uploadChunks (flash_sink nonempty) admin good_request (take 3 fw_upload) (fresh_device 912)) = 912 \<and>
   written (uploadChunks (flash_sink nonempty) admin good_request fw_upload (fresh_device 912)) = 912"
proof -
  let ?U = "flash_sink nonempty"
  let ?d = "uploadChunks ?U admin good_request (take 2 fw_upload) (fresh_device 912)"
  let ?s = "\<lparr>free_space = 912, region = Some (replicate 512 233 @ replicate 400 7), error = False,
             bootable = None\<rparr>"
  have st: "status (fw_upload ! 2) = UPLOAD_FILE_WRITE"
    by (simp add: fw_upload_def chunk_def)
  have w1: "written ?d = 512"
    by (simp add: fw_upload_def upload_start upload_write auth_good flash_eval)
  have call: "Update_write ?U (buf (fw_upload ! 2)) (currentSize (fw_upload ! 2)) (updater ?d) = (400, ?s)"
    by (simp add: fw_upload_def upload_start upload_write auth_good flash_eval)
  have part: "(400 :: size_t) < currentSize (fw_upload ! 2)"
    by (simp add: fw_upload_def chunk_def)
  have t3: "take 3 fw_upload = take 2 fw_upload @ [fw_upload ! 2]"
    by (simp add: fw_upload_def)
  have e: "written (uploadChunks ?U admin good_request fw_upload (fresh_device 912)) = 912"
    by (simp add: fw_upload_def upload_start upload_write upload_end auth_good flash_eval)
  show ?thesis
    using auth_good st w1 call part e
      partial_write_logged_not_aborted [OF auth_good st call part]
    by (simp add: t3 uploadChunks_append)
qed

text \<open>
  Claim C6. When a request carries no credentials, or credentials other than the
  configured pair, each of the three handlers of \<open>/update\<close> (the form page of
  \<open>GET\<close>, the upload handler and the done handler of \<open>POST\<close>) returns the
  device as it was, except for one authentication challenge added to the trace: the
  counter and the updater are untouched, nothing is printed and no response other than
  the challenge is sent. A whole \<open>POST\<close> with any number of chunks only produces one
  challenge per callback.
\<close>

theorem update_requires_credentials:
  assumes "credentials req \<noteq> Some (UPDATE_USER ota, UPDATE_PASS ota)"
  shows "handleUpdatePage ota req d = d\<lparr>trace := trace d @ [RequestAuthentication]\<rparr> \<and>
         handleUpdateUpload U ota req u d = d\<lparr>trace := trace d @ [RequestAuthentication]\<rparr> \<and>
         handleUpdateDone U ota req d = d\<lparr>trace := trace d @ [RequestAuthentication]\<rparr> \<and>
         postUpdate U ota req us d =
           d\<lparr>trace := trace d @ replicate (Suc (length us)) RequestAuthentication\<rparr>"
proof -
  from assms have na: "\<not> authenticate req (UPDATE_USER ota) (UPDATE_PASS ota)"
    by (simp add: authenticate_def)
  have "handleUpdatePage ota req d = d\<lparr>trace := trace d @ [RequestAuthentication]\<rparr>"
    using na by (simp add: handleUpdatePage_def checkAuth_fail)
  moreover have "postUpdate U ota req us d =
           d\<lparr>trace := trace d @ replicate (Suc (length us)) RequestAuthentication\<rparr>"
    using na by (simp add: postUpdate_def uploadChunks_rejected done_rejected replicate_append_same)
  ultimately show ?thesis
    using na by (simp add: upload_rejected done_rejected)
qed

theorem update_requires_credentials_witness:
  "credentials anonymous_request \<noteq> Some (UPDATE_USER admin, UPDATE_PASS admin) \<and>
   credentials bad_request \<noteq> Some (UPDATE_USER admin, UPDATE_PASS admin) \<and>
   handleUpdatePage admin anonymous_request (fresh_device 4096) =
     \<lparr>written = 0, updater = fresh_flash 4096, trace = [RequestAuthentication]\<rparr> \<and>
   postUpdate (flash_sink nonempty) admin bad_request
       [chunk UPLOAD_FILE_START 0 0 [], chunk UPLOAD_FILE_WRITE 2 2 [233, 7], chunk UPLOAD_FILE_END 2 0 []]
       (fresh_device 4096) =
     \<lparr>written = 0, updater = fresh_flash 4096,
      trace = [RequestAuthentication, RequestAuthentication, RequestAuthentication, RequestAuthentication]\<rparr>"
proof -
  have a: "credentials anonymous_request \<noteq> Some (UPDATE_USER admin, UPDATE_PASS admin)"
    by (simp add: anonymous_request_def)
  have b: "credentials bad_request \<noteq> Some (UPDATE_USER admin, UPDATE_PASS admin)"
    by (simp add: bad_request_def admin_def)
  show ?thesis
    using a b
      update_requires_credentials [OF a, of "fresh_device 4096"]
      update_requires_credentials [OF b, of "fresh_device 4096" "flash_sink nonempty" _
        "[chunk UPLOAD_FILE_START 0 0 [], chunk UPLOAD_FILE_WRITE 2 2 [233, 7], chunk UPLOAD_FILE_END 2 0 []]"]
    by (simp add: fresh_device_def numeral_3_eq_3)
qed

text \<open>
  Claim C7. Take an accepted session whose \<open>Update.begin()\<close> fails, and an updater
  whose error state is sticky as the spec describes it (\<open>error_sticky\<close>: a failed
  open records an error, and a write or a seal in the error state keeps it, the seal
  failing). The start handler only prints the error and goes on; every following data
  chunk is still offered to \<open>Update.write\<close>; the end chunk calls
  \<open>Update.end(true)\<close>, which returns false, and prints the error, leaving the updater
  in the state that call returned, with the error recorded; the upload callbacks send no
  response; the done handler answers \<open>Update FAILED\<close>; and nothing in the request
  restarts the device.
\<close>

theorem failed_open_reports_failure:
  assumes auth: "authenticate req (UPDATE_USER ota) (UPDATE_PASS ota)"
    and start: "status u0 = UPLOAD_FILE_START"
    and data: "\<forall>u \<in> set ws. status u = UPLOAD_FILE_WRITE"
    and fin: "status ue = UPLOAD_FILE_END"
    and nospace: "\<not> fst (Update_begin U (updater d))"
    and sticky: "error_sticky U"
    and final: "d' = uploadChunks U ota req (u0 # ws @ [ue]) d"
  shows "session_trace U ota req [u0] d =
           upload_log u0 @
           [UpdateBegin False, UpdatePrintError,
            SerialPrintf (''[OTA] Start: %s, size=%u'' @ [CHR 0x0A])
              [ArgS (filename u0), ArgU (totalSize u0)],
            Yield] \<and>
         map fst (writes_of (session_trace U ota req ws (handleUpdateUpload U ota req u0 d))) =
           map currentSize ws \<and>
         \<not> fst (Update_end U True (updater (uploadChunks U ota req (u0 # ws) d))) \<and>
         postUpdate U ota req (u0 # ws @ [ue]) d =
           d'\<lparr>trace := trace d' @ [Send 200 ''text/plain'' (Plain ''Update FAILED'')]\<rparr> \<and>
         Restart \<notin> set (drop (length (trace d)) (trace (postUpdate U ota req (u0 # ws @ [ue]) d))) \<and>
         session_trace U ota req [ue] (uploadChunks U ota req (u0 # ws) d) =
           upload_log ue @ [UpdateEnd True False, UpdatePrintError, Yield] \<and>
         updater d' = snd (Update_end U True (updater (uploadChunks U ota req (u0 # ws) d))) \<and>
         Update_hasError U (updater d') \<and>
         trace d' =
           trace d @ session_trace U ota req [u0] d @
           session_trace U ota req ws (handleUpdateUpload U ota req u0 d) @
           session_trace U ota req [ue] (uploadChunks U ota req (u0 # ws) d) \<and>
         (\<forall>c t b. Send c t b \<notin> set (drop (length (trace d)) (trace d')))"
proof -
  let ?d1 = "handleUpdateUpload U ota req u0 d"
  let ?d2 = "uploadChunks U ota req ws ?d1"
  have d2: "uploadChunks U ota req (u0 # ws) d = ?d2" by simp
  have e1: "Update_hasError U (updater ?d1)"
    using nospace sticky by (simp add: upload_start [OF auth start] error_sticky_def)
  have e2: "Update_hasError U (updater ?d2)"
    by (rule error_survives_writes [OF auth sticky data e1])
  have e3: "\<not> fst (Update_end U True (updater ?d2)) \<and>
            Update_hasError U (snd (Update_end U True (updater ?d2)))"
    using e2 sticky by (simp add: error_sticky_def)
  have d': "d' = handleUpdateUpload U ota req ue ?d2"
    by (simp add: final uploadChunks_append)
  have u: "updater d' = snd (Update_end U True (updater ?d2))"
    by (simp add: d' upload_end [OF auth fin])
  have e4: "Update_hasError U (updater d')"
    using e3 by (simp add: u)
  have p: "postUpdate U ota req (u0 # ws @ [ue]) d =
           d'\<lparr>trace := trace d' @ [Send 200 ''text/plain'' (Plain ''Update FAILED'')]\<rparr>"
  proof -
    have "postUpdate U ota req (u0 # ws @ [ue]) d = handleUpdateDone U ota req d'"
      unfolding postUpdate_def final ..
    then show ?thesis using e4 by (simp add: done_accepted [OF auth])
  qed
  have t: "trace d' = trace d @ session_trace U ota req (u0 # ws @ [ue]) d"
    unfolding final by (rule trace_uploadChunks)
  have r: "Restart \<notin> set (drop (length (trace d)) (trace (postUpdate U ota req (u0 # ws @ [ue]) d)))"
    using upload_no_restart [of U ota req "u0 # ws @ [ue]" d] by (simp add: p t)
  have ns: "\<forall>c t b. Send c t b \<notin> set (drop (length (trace d)) (trace d'))"
    using upload_no_restart [of U ota req "u0 # ws @ [ue]" d] by (simp add: t)
  have s: "session_trace U ota req [u0] d =
           upload_log u0 @
           [UpdateBegin False, UpdatePrintError,
            SerialPrintf (''[OTA] Start: %s, size=%u'' @ [CHR 0x0A])
              [ArgS (filename u0), ArgU (totalSize u0)],
            Yield]"
    using nospace by (simp add: session_trace_start [OF auth start])
  have w: "map fst (writes_of (session_trace U ota req ws ?d1)) = map currentSize ws"
    using writes_session [OF auth data, of U ?d1] by simp
  have en: "session_trace U ota req [ue] ?d2 =
           upload_log ue @ [UpdateEnd True False, UpdatePrintError, Yield]"
    using e3 by (simp add: session_trace_end [OF auth fin])
  have sp: "session_trace U ota req (u0 # ws @ [ue]) d =
      session_trace U ota req [u0] d @ session_trace U ota req ws ?d1 @
      session_trace U ota req [ue] ?d2"
    by (simp add: session_trace_Cons [of U ota req u0 "ws @ [ue]" d] session_trace_append)
  have tt: "trace d' = trace d @ session_trace U ota req [u0] d @
      session_trace U ota req ws ?d1 @ session_trace U ota req [ue] ?d2"
    using t sp by simp
  show ?thesis
    unfolding d2
  proof (intro conjI)
    show "session_trace U ota req [u0] d =
           upload_log u0 @
           [UpdateBegin False, UpdatePrintError,
            SerialPrintf (''[OTA] Start: %s, size=%u'' @ [CHR 0x0A])
              [ArgS (filename u0), ArgU (totalSize u0)],
            Yield]" by (rule s)
    show "map fst (writes_of (session_trace U ota req ws ?d1)) = map currentSize ws" by (rule w)
    show "\<not> fst (Update_end U True (updater ?d2))" using e3 by blast
    show "postUpdate U ota req (u0 # ws @ [ue]) d =
           d'\<lparr>trace := trace d' @ [Send 200 ''text/plain'' (Plain ''Update FAILED'')]\<rparr>"
      by (rule p)
    show "Restart \<notin> set (drop (length (trace d)) (trace (postUpdate U ota req (u0 # ws @ [ue]) d)))"
      by (rule r)
    show "session_trace U ota req [ue] ?d2 =
           upload_log ue @ [UpdateEnd True False, UpdatePrintError, Yield]" by (rule en)
    show "updater d' = snd (Update_end U True (updater ?d2))" by (rule u)
    show "Update_hasError U (updater d')" by (rule e4)
    show "trace d' = trace d @ session_trace U ota req [u0] d @
      session_trace U ota req ws ?d1 @ session_trace U ota req [ue] ?d2" by (rule tt)
    show "\<forall>c t b. Send c t b \<notin> set (drop (length (trace d)) (trace d'))" by (rule ns)
  qed
qed

theorem failed_open_reports_failure_witness:
  "authenticate good_request (UPDATE_USER admin) (UPDATE_PASS admin) \<and>
   \<not> fst (Update_begin (flash_sink nonempty) (updater (fresh_device 0))) \<and>
   error_sticky (flash_sink nonempty) \<and>
   writes_of (session_trace (flash_sink nonempty) admin good_request fw_upload (fresh_device 0))
     = [(512, 0), (512, 0)] \<and>
   session_trace (flash_sink nonempty) admin good_request [chunk UPLOAD_FILE_END 1024 0 []]
     (uploadChunks (flash_sink nonempty) admin good_request (take 3 fw_upload) (fresh_device 0))
     = upload_log (chunk UPLOAD_FILE_END 1024 0 []) @ [UpdateEnd True False, UpdatePrintError, Yield] \<and>
   UpdateEnd True False \<in> set (trace (uploadChunks (flash_sink nonempty) admin good_request fw_upload
     (fresh_device 0))) \<and>
   postUpdate (flash_sink nonempty) admin good_request fw_upload (fresh_device 0) =
     (uploadChunks (flash_sink nonempty) admin good_request fw_upload (fresh_device 0))
       \<lparr>trace := trace (uploadChunks (flash_sink nonempty) admin good_request fw_upload (fresh_device 0)) @
          [Send 200 ''text/plain'' (Plain ''Update FAILED'')]\<rparr> \<and>
   Restart \<notin> set (trace (postUpdate (flash_sink nonempty) admin good_request fw_upload (fresh_device 0)))"
proof -
  let ?U = "flash_sink nonempty"
  let ?u0 = "chunk UPLOAD_FILE_START 1024 0 []"
  let ?ws = "[chunk UPLOAD_FILE_WRITE 1024 512 (replicate 512 233),
              chunk UPLOAD_FILE_WRITE 1024 512 (replicate 512 7)]"
  let ?ue = "chunk UPLOAD_FILE_END 1024 0 []"
  have s: "status ?u0 = UPLOAD_FILE_START" and e: "status ?ue = UPLOAD_FILE_END"
    and w: "\<forall>u \<in> set ?ws. status u = UPLOAD_FILE_WRITE"
    by (simp_all add: chunk_def)
  have n: "\<not> fst (Update_begin ?U (updater (fresh_device 0)))"
    by (simp add: flash_eval)
  have c: "writes_of (session_trace ?U admin good_request fw_upload (fresh_device 0)) = [(512, 0), (512, 0)]"
    by (simp add: fw_upload_def session_trace_def upload_eval flash_eval upload_log_def)
  have t: "trace (fresh_device 0) = []"
    by (simp add: fresh_device_def)
  have t3: "take 3 fw_upload = ?u0 # ?ws"
    by (simp add: fw_upload_def)
  note r = failed_open_reports_failure [OF auth_good s w e n flash_error_sticky refl]
  have p: "postUpdate ?U admin good_request fw_upload (fresh_device 0) =
     (uploadChunks ?U admin good_request fw_upload (fresh_device 0))
       \<lparr>trace := trace (uploadChunks ?U admin good_request fw_upload (fresh_device 0)) @
          [Send 200 ''text/plain'' (Plain ''Update FAILED'')]\<rparr>"
    using r unfolding fw_upload_split by blast
  have "Restart \<notin> set (drop (length (trace (fresh_device 0)))
          (trace (postUpdate ?U admin good_request fw_upload (fresh_device 0))))"
    using r unfolding fw_upload_split by blast
  then have q: "Restart \<notin> set (trace (postUpdate ?U admin good_request fw_upload (fresh_device 0)))"
    by (simp add: t)
  have en: "session_trace ?U admin good_request [?ue]
     (uploadChunks ?U admin good_request (take 3 fw_upload) (fresh_device 0))
     = upload_log ?ue @ [UpdateEnd True False, UpdatePrintError, Yield]"
    using r unfolding t3 by blast
  have "trace (uploadChunks ?U admin good_request fw_upload (fresh_device 0)) =
      trace (fresh_device 0) @ session_trace ?U admin good_request [?u0] (fresh_device 0) @
      session_trace ?U admin good_request ?ws (handleUpdateUpload ?U admin good_request ?u0 (fresh_device 0)) @
      session_trace ?U admin good_request [?ue] (uploadChunks ?U admin good_request (?u0 # ?ws) (fresh_device 0))"
    using r unfolding fw_upload_split by blast
  then have m: "UpdateEnd True False \<in> set (trace (uploadChunks ?U admin good_request fw_upload (fresh_device 0)))"
    using en unfolding t3 by simp
  show ?thesis
    using auth_good n c flash_error_sticky [of nonempty] en m p q by blast
qed

text \<open>
  Claim C8. The scenario start (\<open>fw.bin\<close>, 1024), data of 512 bytes, data of 512
  bytes, end, accepted, against an updater that opens, accepts both writes in full,
  seals successfully and then has no error recorded: \<open>written\<close> is 1024, the sealed
  state is the updater's state, the status of the spec read off the trace is Completed,
  the success line reports 1024 bytes, and the done handler sends
  \<open>Update OK. Rebooting...\<close>, waits and restarts.
\<close>

theorem full_upload_completes:
  assumes auth: "authenticate req (UPDATE_USER ota) (UPDATE_PASS ota)"
    and u0: "status u0 = UPLOAD_FILE_START" "filename u0 = ''fw.bin''" "totalSize u0 = 1024"
    and u1: "status u1 = UPLOAD_FILE_WRITE" "currentSize u1 = 512"
    and u2: "status u2 = UPLOAD_FILE_WRITE" "currentSize u2 = 512"
    and u3: "status u3 = UPLOAD_FILE_END"
    and opened: "Update_begin U (updater d) = (True, s1)"
    and first: "Update_write U (buf u1) 512 s1 = (512, s2)"
    and second: "Update_write U (buf u2) 512 s2 = (512, s3)"
    and sealed: "Update_end U True s3 = (True, s4)"
    and clean: "\<not> Update_hasError U s4"
    and final: "d' = uploadChunks U ota req [u0, u1, u2, u3] d"
  shows "written d' = 1024 \<and> updater d' = s4 \<and>
         spec_status (trace d') = Completed \<and>
         SerialPrintf (''[OTA] Success: %u bytes written, rebooting...'' @ [CHR 0x0A]) [ArgU 1024]
           \<in> set (trace d') \<and>
         postUpdate U ota req [u0, u1, u2, u3] d =
           d'\<lparr>trace := trace d' @
              [Send 200 ''text/plain'' (Plain ''Update OK. Rebooting...''), Delay 500, Restart]\<rparr>"
proof -
  let ?a = "handleUpdateUpload U ota req u0 d"
  let ?b = "handleUpdateUpload U ota req u1 ?a"
  let ?c = "handleUpdateUpload U ota req u2 ?b"
  have a: "written ?a = 0" "updater ?a = s1"
    "spec_status (trace ?a) = InProgress"
    using opened
    by (simp_all add: upload_start [OF auth u0(1)] spec_status_append spec_step_upload_log)
  have b: "written ?b = 512" "updater ?b = s2" "spec_status (trace ?b) = InProgress"
    using a first u1(2)
    by (simp_all add: upload_write [OF auth u1(1)] spec_status_append spec_step_upload_log)
  have c: "written ?c = 1024" "updater ?c = s3" "spec_status (trace ?c) = InProgress"
    using b second u2(2)
    by (simp_all add: upload_write [OF auth u2(1)] spec_status_append spec_step_upload_log)
  have d': "d' = handleUpdateUpload U ota req u3 ?c"
    by (simp add: final)
  have e: "written d' = 1024" "updater d' = s4" "spec_status (trace d') = Completed"
    "SerialPrintf (''[OTA] Success: %u bytes written, rebooting...'' @ [CHR 0x0A]) [ArgU 1024]
           \<in> set (trace d')"
    using c sealed
    by (simp_all add: d' upload_end [OF auth u3] spec_status_append spec_step_upload_log)
  have "postUpdate U ota req [u0, u1, u2, u3] d = handleUpdateDone U ota req d'"
    unfolding postUpdate_def final ..
  then have p: "postUpdate U ota req [u0, u1, u2, u3] d =
           d'\<lparr>trace := trace d' @
              [Send 200 ''text/plain'' (Plain ''Update OK. Rebooting...''), Delay 500, Restart]\<rparr>"
    using e(2) clean by (simp add: done_accepted [OF auth])
  show ?thesis
    using e p by simp
qed

theorem full_upload_completes_witness:
  "authenticate good_request (UPDATE_USER admin) (UPDATE_PASS admin) \<and>
   Update_begin (flash_sink nonempty) (updater (fresh_device 4096)) =
     (True, \<lparr>free_space = 4096, region = Some [], error = False, bootable = None\<rparr>) \<and>
   written (uploadChunks (flash_sink nonempty) admin good_request fw_upload (fresh_device 4096)) = 1024 \<and>
   updater (uploadChunks (flash_sink nonempty) admin good_request fw_upload (fresh_device 4096)) =
     \<lparr>free_space = 4096, region = None, error = False,
      bootable = Some (replicate 512 233 @ replicate 512 7)\<rparr> \<and>
   spec_status (trace (uploadChunks (flash_sink nonempty) admin good_request fw_upload (fresh_device 4096)))
     = Completed \<and>
   drop 18 (trace (postUpdate (flash_sink nonempty) admin good_request fw_upload (fresh_device 4096))) =
     [Send 200 ''text/plain'' (Plain ''Update OK. Rebooting...''), Delay 500, Restart]"
proof -
  let ?U = "flash_sink nonempty"
  let ?s1 = "\<lparr>free_space = 4096, region = Some [], error = False, bootable = None\<rparr>"
  let ?s2 = "\<lparr>free_space = 4096, region = Some (replicate 512 233), error = False, bootable = None\<rparr>"
  let ?s3 = "\<lparr>free_space = 4096, region = Some (replicate 512 233 @ replicate 512 7), error = False,
              bootable = None\<rparr>"
  let ?s4 = "\<lparr>free_space = 4096, region = None, error = False,
              bootable = Some (replicate 512 233 @ replicate 512 7)\<rparr>"
  let ?u0 = "chunk UPLOAD_FILE_START 1024 0 []"
  let ?u1 = "chunk UPLOAD_FILE_WRITE 1024 512 (replicate 512 233)"
  let ?u2 = "chunk UPLOAD_FILE_WRITE 1024 512 (replicate 512 7)"
  let ?u3 = "chunk UPLOAD_FILE_END 1024 0 []"
  have u0: "status ?u0 = UPLOAD_FILE_START" "filename ?u0 = ''fw.bin''" "totalSize ?u0 = 1024"
    and u1: "status ?u1 = UPLOAD_FILE_WRITE" "currentSize ?u1 = 512"
    and u2: "status ?u2 = UPLOAD_FILE_WRITE" "currentSize ?u2 = 512"
    and u3: "status ?u3 = UPLOAD_FILE_END"
    by (simp_all add: chunk_def)
  have o: "Update_begin ?U (updater (fresh_device 4096)) = (True, ?s1)"
    by (simp add: flash_eval)
  have a: "Update_write ?U (buf ?u1) 512 ?s1 = (512, ?s2)"
    by (simp add: flash_eval)
  have b: "Update_write ?U (buf ?u2) 512 ?s2 = (512, ?s3)"
    by (simp add: flash_eval)
  have c: "Update_end ?U True ?s3 = (True, ?s4)"
    by (simp add: flash_eval)
  have e: "\<not> Update_hasError ?U ?s4"
    by (simp add: flash_eval)
  have l: "length (trace (uploadChunks ?U admin good_request fw_upload (fresh_device 4096))) = 18"
    by (simp add: fw_upload_def upload_eval flash_eval upload_log_def)
  show ?thesis
    using auth_good o l
      full_upload_completes [OF auth_good u0 u1 u2 u3 o a b c e refl]
    by (simp add: fw_upload_def)
qed

text \<open>
  Claim C9. An accepted end chunk always calls \<open>Update.end(true)\<close>, from every state
  of the device: whatever \<open>written\<close> is, whatever size was announced, and whether or
  not earlier writes were partial, the handler does not compare any of them before
  sealing. On the flash sink of the spec, the scenario of 1024 announced bytes of which
  only 912 are accepted ends with the 912-byte image marked for the next restart, and the
  done handler restarts the device.
\<close>

theorem end_forces_seal:
  assumes auth: "authenticate req (UPDATE_USER ota) (UPDATE_PASS ota)"
    and fin: "status u = UPLOAD_FILE_END"
  shows "updater (handleUpdateUpload U ota req u d) = snd (Update_end U True (updater d)) \<and>
         session_trace U ota req [u] d =
           upload_log u @
           [UpdateEnd True (fst (Update_end U True (updater d))),
            if fst (Update_end U True (updater d))
            then SerialPrintf (''[OTA] Success: %u bytes written, rebooting...'' @ [CHR 0x0A])
                   [ArgU (written d)]
            else UpdatePrintError,
            Yield] \<and>
         written (uploadChunks (flash_sink nonempty) admin good_request fw_upload (fresh_device 912)) = 912 \<and>
         bootable (updater (uploadChunks (flash_sink nonempty) admin good_request fw_upload (fresh_device 912)))
           = Some (replicate 512 233 @ replicate 400 7) \<and>
         drop 19 (trace (postUpdate (flash_sink nonempty) admin good_request fw_upload (fresh_device 912)))
           = [Send 200 ''text/plain'' (Plain ''Update OK. Rebooting...''), Delay 500, Restart]"
proof -
  have a: "updater (handleUpdateUpload U ota req u d) = snd (Update_end U True (updater d))"
    by (simp add: upload_end [OF auth fin])
  have b: "written (uploadChunks (flash_sink nonempty) admin good_request fw_upload (fresh_device 912)) = 912"
    by (simp add: fw_upload_def upload_eval flash_eval)
  have c: "bootable (updater (uploadChunks (flash_sink nonempty) admin good_request fw_upload (fresh_device 912)))
           = Some (replicate 512 233 @ replicate 400 7)"
    by (simp add: fw_upload_def upload_eval flash_eval)
  have d: "drop 19 (trace (postUpdate (flash_sink nonempty) admin good_request fw_upload (fresh_device 912)))
           = [Send 200 ''text/plain'' (Plain ''Update OK. Rebooting...''), Delay 500, Restart]"
    by (simp add: postUpdate_def done_accepted fw_upload_def upload_eval flash_eval upload_log_def)
  show ?thesis
    using a b c d by (simp add: session_trace_end [OF auth fin])
qed

theorem end_forces_seal_witness:
  "authenticate good_request (UPDATE_USER admin) (UPDATE_PASS admin) \<and>
   status (chunk UPLOAD_FILE_END 1024 0 []) = UPLOAD_FILE_END \<and>
   updater (handleUpdateUpload (flash_sink nonempty) admin good_request (chunk UPLOAD_FILE_END 1024 0 [])
      \<lparr>written = 3, updater = \<lparr>free_space = 8, region = Some [233, 1, 2], error = False, bootable = None\<rparr>,
       trace = []\<rparr>)
     = \<lparr>free_space = 8, region = None, error = False, bootable = Some [233, 1, 2]\<rparr>"
proof -
  have st: "status (chunk UPLOAD_FILE_END 1024 0 []) = UPLOAD_FILE_END"
    by (simp add: chunk_def)
  show ?thesis
    using auth_good st
      end_forces_seal [OF auth_good st, of "flash_sink nonempty"
        "\<lparr>written = 3, updater = \<lparr>free_space = 8, region = Some [233, 1, 2], error = False, bootable = None\<rparr>,
          trace = []\<rparr>"]
    by (simp add: flash_eval)
qed

text \<open>
  Claim C10. For every authenticated \<open>POST /update\<close>, the done handler restarts the
  device exactly when the updater has no error recorded after the upload callbacks. In
  particular a request that delivered no chunk at all, on a device with no error
  recorded, gets \<open>Update OK. Rebooting...\<close> and a restart, although no call of
  \<open>Update.begin\<close> or \<open>Update.end\<close> was made: the status of the spec read off
  the trace is what it was before the request (Idle on a device that has just booted).
\<close>

theorem restart_follows_error_flag_only:
  assumes "authenticate req (UPDATE_USER ota) (UPDATE_PASS ota)"
  shows "(Restart \<in> set (drop (length (trace (uploadChunks U ota req us d)))
                          (trace (postUpdate U ota req us d)))
          \<longleftrightarrow> \<not> Update_hasError U (updater (uploadChunks U ota req us d))) \<and>
         (\<not> Update_hasError U (updater d) \<longrightarrow>
            postUpdate U ota req [] d =
              d\<lparr>trace := trace d @
                 [Send 200 ''text/plain'' (Plain ''Update OK. Rebooting...''), Delay 500, Restart]\<rparr> \<and>
            spec_status (trace (postUpdate U ota req [] d)) = spec_status (trace d))"
  using assms by (simp add: postUpdate_def done_accepted spec_status_append)

theorem restart_follows_error_flag_only_witness:
  "authenticate good_request (UPDATE_USER admin) (UPDATE_PASS admin) \<and>
   \<not> Update_hasError (flash_sink nonempty) (updater (fresh_device 4096)) \<and>
   postUpdate (flash_sink nonempty) admin good_request [] (fresh_device 4096) =
     \<lparr>written = 0, updater = fresh_flash 4096,
      trace = [Send 200 ''text/plain'' (Plain ''Update OK. Rebooting...''), Delay 500, Restart]\<rparr> \<and>
   spec_status (trace (postUpdate (flash_sink nonempty) admin good_request [] (fresh_device 4096))) = Idle"
proof -
  have a: "authenticate good_request (UPDATE_USER admin) (UPDATE_PASS admin)"
    by (simp add: authenticate_def good_request_def admin_def)
  have b: "\<not> Update_hasError (flash_sink nonempty) (updater (fresh_device 4096))"
    by (simp add: flash_sink_def fresh_device_def fresh_flash_def)
  show ?thesis
    using a b restart_follows_error_flag_only [OF a, of "flash_sink nonempty" "[]" "fresh_device 4096"]
    by (simp add: fresh_device_def spec_status_def)
qed

end
